theory Spec2Isabelle
  imports Complex_Main
begin

section \<open>Data model\<close>

text \<open>
  The engine facade \<^verbatim>\<open>ChatBot\<close> of \<^verbatim>\<open>chatterbot/chatterbot.py\<close> is embedded with explicit
  state passing: every method takes the bot and returns the bot it leaves behind.
  The storage adapter, the statement class, the conversation manager and the logic
  adapters live in modules that are imported by \<^verbatim>\<open>chatterbot.py\<close> but are not part of
  the sources at hand; what the facade needs of them is modelled from the specification
  and marked as such.
\<close>

text \<open>
  Modelled from the spec: the \<^verbatim>\<open>Response\<close> class of the storage adapter is missing.
  A response link names the text of the prior statement and counts how often the
  pairing was seen.
\<close>

record response =
  response_text :: string
  response_occurrence :: nat

text \<open>
  Modelled from the spec: the \<^verbatim>\<open>Statement\<close> class is missing. A statement is keyed by its
  text and carries its occurrence count and its response links.
\<close>

record statement =
  statement_text :: string
  occurrence :: nat
  in_response_to :: "response list"

text \<open>
  Modelled from the spec: the storage adapter is missing. It owns the statements (keyed
  by text), the conversations (keyed by id) and, for each conversation, the ordered
  sequence of statements appended to it. A Python conversation object is a handle on
  its id.
\<close>

record storage =
  stored_statements :: "statement list"
  conversation_ids :: "nat list"
  conversation_turns :: "(nat \<times> statement) list"

text \<open>
  The statement object that a matching strategy hands back: the input statement object
  itself, which \<^verbatim>\<open>learn_response\<close> mutates afterwards, or another statement object.
\<close>

datatype selection = Same_as_input | Other_statement statement

text \<open>
  A matching strategy maps the input statement and the candidate pool to a response and
  a confidence.
\<close>

type_synonym adapter = "statement \<Rightarrow> statement list \<Rightarrow> selection \<times> rat"

record chatbot =
  name :: string
  storage :: storage
  base_query :: "storage \<Rightarrow> nat \<Rightarrow> statement list"
  adapters :: "adapter list"
  system_adapters :: "adapter list"
  input_adapter :: "storage \<Rightarrow> string \<Rightarrow> statement"
  preprocessors :: "(statement \<Rightarrow> statement) list"
  default_conversation :: "nat option"
  read_only :: bool

datatype error = AttributeError

section \<open>Collaborators of the facade\<close>

text \<open>
  Modelled from the spec: \<^verbatim>\<open>Statement.add_response\<close> is missing. It creates the link to
  the given response with count 1, or increments the count of the link already there.
\<close>

fun add_link :: "string \<Rightarrow> response list \<Rightarrow> response list" where
  "add_link t [] = [\<lparr>response_text = t, response_occurrence = 1\<rparr>]"
| "add_link t (r # rs) =
     (if response_text r = t
      then r\<lparr>response_occurrence := response_occurrence r + 1\<rparr> # rs
      else r # add_link t rs)"

definition Response :: "string \<Rightarrow> response" where
  "Response t = \<lparr>response_text = t, response_occurrence = 1\<rparr>"

definition add_response :: "statement \<Rightarrow> response \<Rightarrow> statement" where
  "add_response s r = s\<lparr>in_response_to := add_link (response_text r) (in_response_to s)\<rparr>"

text \<open>The count of the link from the statement of text \<open>t\<close>, 0 when there is none.\<close>

fun link_count :: "string \<Rightarrow> response list \<Rightarrow> nat" where
  "link_count t [] = 0"
| "link_count t (r # rs) =
     (if response_text r = t then response_occurrence r else link_count t rs)"

text \<open>
  Modelled from the spec: \<^verbatim>\<open>storage.update\<close> is missing. It stores the statement under
  its text, with the occurrence count of the stored entity incremented by one (a first
  sighting is stored with count 1).
\<close>

fun upsert :: "statement \<Rightarrow> statement list \<Rightarrow> statement list" where
  "upsert s [] = [s\<lparr>occurrence := 1\<rparr>]"
| "upsert s (t # ts) =
     (if statement_text t = statement_text s
      then s\<lparr>occurrence := occurrence t + 1\<rparr> # ts
      else t # upsert s ts)"

definition update :: "storage \<Rightarrow> statement \<Rightarrow> storage" where
  "update st s = st\<lparr>stored_statements := upsert s (stored_statements st)\<rparr>"

text \<open>
  Modelled from the spec: \<^verbatim>\<open>Statement.save\<close> is missing. It persists the statement
  through the storage adapter.
\<close>

definition save :: "storage \<Rightarrow> statement \<Rightarrow> storage" where
  "save st s = update st s"

fun find_statement :: "string \<Rightarrow> statement list \<Rightarrow> statement option" where
  "find_statement t [] = None"
| "find_statement t (s # ss) = (if statement_text s = t then Some s else find_statement t ss)"

text \<open>The occurrence count the store holds for a text, 0 when the text is unknown.\<close>

definition occurrence_of :: "storage \<Rightarrow> string \<Rightarrow> nat" where
  "occurrence_of st t =
     (case find_statement t (stored_statements st) of None \<Rightarrow> 0 | Some s \<Rightarrow> occurrence s)"

text \<open>
  Modelled from the spec: \<^verbatim>\<open>storage.Conversation.objects.create\<close> is missing. It creates a new
  empty conversation under an id that no conversation has yet.
\<close>

definition objects_create :: "storage \<Rightarrow> nat \<times> storage" where
  "objects_create st =
     (let i = Suc (fold max (conversation_ids st) 0)
      in (i, st\<lparr>conversation_ids := conversation_ids st @ [i]\<rparr>))"

text \<open>
  Modelled from the spec: \<^verbatim>\<open>ConversationManager.get\<close> is missing. It looks the
  conversation up by id and returns nothing when there is none.
\<close>

definition conversations_get :: "storage \<Rightarrow> nat \<Rightarrow> nat option" where
  "conversations_get st i = (if i \<in> set (conversation_ids st) then Some i else None)"

text \<open>
  Modelled from the spec: \<^verbatim>\<open>conversation.statements\<close> is missing. The statements of a
  conversation in the order they were appended, and \<^verbatim>\<open>conversation.statements.add\<close>, which
  appends one.
\<close>

definition statements :: "storage \<Rightarrow> nat \<Rightarrow> statement list" where
  "statements st c = map snd (filter (\<lambda>p. fst p = c) (conversation_turns st))"

definition statements_add :: "storage \<Rightarrow> nat \<Rightarrow> statement \<Rightarrow> storage" where
  "statements_add st c s = st\<lparr>conversation_turns := conversation_turns st @ [(c, s)]\<rparr>"

text \<open>
  Modelled from the spec: \<^verbatim>\<open>Conversation.get_last_response_statement\<close> is missing. It
  returns the most recently appended statement, or nothing for an empty conversation.
\<close>

definition get_last_response_statement :: "storage \<Rightarrow> nat \<Rightarrow> statement option" where
  "get_last_response_statement st c =
     (if statements st c = [] then None else Some (last (statements st c)))"

text \<open>
  Modelled from the spec: \<^verbatim>\<open>MultiLogicAdapter.process\<close> is missing. Every strategy runs, in
  the configured order with the system (fallback) adapters last, on the same input and
  pool. The result with the strictly highest confidence is selected, so that of several
  results with the highest confidence the earliest stays selected. When every strategy
  that is not a fallback returns confidence 0, the response of the fallback is used.
\<close>

fun select :: "(selection \<times> rat) option \<Rightarrow> (selection \<times> rat) list \<Rightarrow> (selection \<times> rat) option" where
  "select best [] = best"
| "select best (r # rs) =
     select (case best of
               None \<Rightarrow> Some r
             | Some b \<Rightarrow> if snd b < snd r then Some r else Some b) rs"

definition process ::
  "adapter list \<Rightarrow> adapter list \<Rightarrow> statement \<Rightarrow> statement list \<Rightarrow> selection option" where
  "process strategies fallback input_statement pool =
     (let results = map (\<lambda>a. a input_statement pool) strategies;
          fallback_results = map (\<lambda>a. a input_statement pool) fallback
      in map_option fst
           (if list_all (\<lambda>r. snd r = 0) results
            then select None fallback_results
            else select None (results @ fallback_results)))"

text \<open>The statement that a selection stands for, given the input statement as it is now.\<close>

definition the_statement :: "selection \<Rightarrow> statement \<Rightarrow> statement" where
  "the_statement sel input_statement =
     (case sel of Same_as_input \<Rightarrow> input_statement | Other_statement s \<Rightarrow> s)"

text \<open>
  Modelled from the spec: the output adapter is missing. The base adapter hands the
  winning statement back as it is.
\<close>

definition process_response :: "statement option \<Rightarrow> nat \<Rightarrow> statement option" where
  "process_response r c = r"

section \<open>The engine facade\<close>

text \<open>
  The keyword arguments of the constructor that the engine reads; an argument that is
  not given is \<open>None\<close>. The adapters and preprocessors are given as the objects that the
  source loads from their dotted names.
\<close>

record kwargs =
  kw_storage_adapter :: "storage option"
  kw_base_query :: "(storage \<Rightarrow> nat \<Rightarrow> statement list) option"
  kw_logic_adapters :: "adapter list option"
  kw_input_adapter :: "(storage \<Rightarrow> string \<Rightarrow> statement) option"
  kw_preprocessors :: "(statement \<Rightarrow> statement) list option"
  kw_read_only :: "bool option"

text \<open>
  The classes and functions of the package that the constructor names as defaults or
  adds by itself. They are not part of the sources at hand and are taken as parameters.
\<close>

record package =
  JsonFileStorageAdapter :: storage
  generate_base_query :: "storage \<Rightarrow> nat \<Rightarrow> statement list"
  BestMatch :: adapter
  NoKnowledgeAdapter :: adapter
  VariableInputTypeAdapter :: "storage \<Rightarrow> string \<Rightarrow> statement"
  clean_whitespace :: "statement \<Rightarrow> statement"

text \<open>\<^verbatim>\<open>kwargs.get(key, default)\<close>.\<close>

definition kwargs_get :: "'a option \<Rightarrow> 'a \<Rightarrow> 'a" where
  "kwargs_get v d = (case v of None \<Rightarrow> d | Some x \<Rightarrow> x)"

text \<open>
  \<^verbatim>\<open>ChatBot.__init__\<close>. The logic starts without adapters; the constructor appends the
  no-knowledge adapter to its system adapters and then adds the configured adapters in
  their order.
\<close>

definition ChatBot :: "package \<Rightarrow> string \<Rightarrow> kwargs \<Rightarrow> chatbot" where
  "ChatBot pkg nm kw =
     \<lparr>name = nm,
      storage = kwargs_get (kw_storage_adapter kw) (JsonFileStorageAdapter pkg),
      base_query = kwargs_get (kw_base_query kw) (generate_base_query pkg),
      adapters = fold (\<lambda>a as. as @ [a]) (kwargs_get (kw_logic_adapters kw) [BestMatch pkg]) [],
      system_adapters = [] @ [NoKnowledgeAdapter pkg],
      input_adapter = kwargs_get (kw_input_adapter kw) (VariableInputTypeAdapter pkg),
      preprocessors =
        fold (\<lambda>p ps. ps @ [p]) (kwargs_get (kw_preprocessors kw) [clean_whitespace pkg]) [],
      default_conversation = None,
      read_only = kwargs_get (kw_read_only kw) False\<rparr>"

text \<open>\<^verbatim>\<open>ChatBot.get_or_create_default_conversation\<close>.\<close>

definition get_or_create_default_conversation :: "chatbot \<Rightarrow> nat \<times> chatbot" where
  "get_or_create_default_conversation self =
     (case default_conversation self of
        None \<Rightarrow>
          (let (c, st) = objects_create (storage self)
           in (c, self\<lparr>storage := st, default_conversation := Some c\<rparr>))
      | Some c \<Rightarrow> (c, self))"

text \<open>\<^verbatim>\<open>ChatBot.generate_response\<close>.\<close>

definition generate_response :: "chatbot \<Rightarrow> statement \<Rightarrow> nat \<Rightarrow> statement \<times> selection option" where
  "generate_response self input_statement conversation_id =
     (let pool = base_query self (storage self) conversation_id;
          response = process (adapters self) (system_adapters self) input_statement pool
      in (input_statement, response))"

text \<open>
  \<^verbatim>\<open>ChatBot.learn_response\<close>. The statement is mutated in memory, so it is returned with
  the bot. A conversation that is not given is \<open>None\<close>.
\<close>

definition learn_response ::
  "chatbot \<Rightarrow> statement \<Rightarrow> statement option \<Rightarrow> nat option \<Rightarrow> statement \<times> chatbot" where
  "learn_response self statement previous_statement conversation =
     (let (conv, self1) =
            (case conversation of
               None \<Rightarrow> get_or_create_default_conversation self
             | Some c \<Rightarrow> (c, self));
          statement1 =
            (case previous_statement of
               None \<Rightarrow> statement
             | Some p \<Rightarrow> add_response statement (Response (statement_text p)))
      in if \<not> read_only self1
         then (statement1,
               self1\<lparr>storage := statements_add (update (storage self1) statement1) conv statement1\<rparr>)
         else (statement1, self1))"

text \<open>
  The conversation that \<^verbatim>\<open>ChatBot.get_response\<close> works on (the branch on
  \<^verbatim>\<open>conversation_id\<close> at the start of its body). A conversation id that is \<open>None\<close> or
  0 is false for Python.
\<close>

definition get_conversation :: "chatbot \<Rightarrow> nat option \<Rightarrow> nat \<times> chatbot" where
  "get_conversation self conversation_id =
     (case conversation_id of
        None \<Rightarrow> get_or_create_default_conversation self
      | Some i \<Rightarrow>
          if i \<noteq> 0
          then (case conversations_get (storage self) i of
                  None \<Rightarrow> get_or_create_default_conversation self
                | Some c \<Rightarrow> (c, self))
          else get_or_create_default_conversation self)"

text \<open>
  The input statement of \<^verbatim>\<open>ChatBot.get_response\<close>: the input adapter's statement, run
  through the preprocessors in their order.
\<close>

definition preprocess :: "chatbot \<Rightarrow> string \<Rightarrow> statement" where
  "preprocess self input_item =
     fold (\<lambda>preprocessor s. preprocessor s) (preprocessors self)
       (input_adapter self (storage self) input_item)"

text \<open>
  \<^verbatim>\<open>ChatBot.get_response\<close>. The response may be the input statement object, which
  \<^verbatim>\<open>learn_response\<close> has mutated by the time the response is saved, appended and returned.
  The call on an absent response raises \<^verbatim>\<open>AttributeError\<close> when the bot is not read-only;
  the exception is the result then, and the bot that it leaves is not modelled.
\<close>

definition get_response ::
  "chatbot \<Rightarrow> string \<Rightarrow> nat option \<Rightarrow> error + statement option \<times> chatbot" where
  "get_response self input_item conversation_id =
     (let input_statement = preprocess self input_item;
          (conv, self1) = get_conversation self conversation_id;
          (statement, selected) = generate_response self1 input_statement conv;
          previous_statement = get_last_response_statement (storage self1) conv;
          (statement1, self2) = learn_response self1 statement previous_statement (Some conv);
          response = map_option (\<lambda>sel. the_statement sel statement1) selected
      in if \<not> read_only self2
         then (case response of
                 None \<Rightarrow> Inl AttributeError
               | Some r \<Rightarrow>
                   Inr (process_response (Some r) conv,
                        self2\<lparr>storage := statements_add (save (storage self2) r) conv r\<rparr>))
         else Inr (process_response response conv, self2))"

text \<open>
  A sequence of \<^verbatim>\<open>get_response\<close> calls on one bot, each given its input and conversation
  id; an exception ends the sequence.
\<close>

fun get_responses :: "chatbot \<Rightarrow> (string \<times> nat option) list \<Rightarrow> error + chatbot" where
  "get_responses self [] = Inr self"
| "get_responses self (call # calls) =
     (case get_response self (fst call) (snd call) of
        Inl e \<Rightarrow> Inl e
      | Inr res \<Rightarrow> get_responses (snd res) calls)"

section \<open>A sample configuration\<close>

text \<open>
  A small package to run the engine on: an empty store, the whole store as candidate
  pool, a best-match strategy that is sure of the first candidate, a no-knowledge
  strategy with a fixed apology, and an input adapter that loads the stored statement of
  the input text when there is one.
\<close>

definition Statement :: "string \<Rightarrow> statement" where
  "Statement t = \<lparr>statement_text = t, occurrence = 0, in_response_to = []\<rparr>"

definition sample_storage :: storage where
  "sample_storage = \<lparr>stored_statements = [], conversation_ids = [], conversation_turns = []\<rparr>"

definition sample_package :: package where
  "sample_package =
     \<lparr>JsonFileStorageAdapter = sample_storage,
      generate_base_query = (\<lambda>st c. stored_statements st),
      BestMatch =
        (\<lambda>s pool. case pool of [] \<Rightarrow> (Same_as_input, 0) | p # ps \<Rightarrow> (Other_statement p, 1)),
      NoKnowledgeAdapter = (\<lambda>s pool. (Other_statement (Statement ''I do not understand''), 0)),
      VariableInputTypeAdapter =
        (\<lambda>st t. case find_statement t (stored_statements st) of
                   None \<Rightarrow> Statement t
                 | Some s \<Rightarrow> s),
      clean_whitespace = (\<lambda>s. s)\<rparr>"

definition no_kwargs :: kwargs where
  "no_kwargs =
     \<lparr>kw_storage_adapter = None, kw_base_query = None, kw_logic_adapters = None,
      kw_input_adapter = None, kw_preprocessors = None, kw_read_only = None\<rparr>"

definition sample_bot :: chatbot where
  "sample_bot = ChatBot sample_package ''bot'' no_kwargs"

definition frozen_bot :: chatbot where
  "frozen_bot = ChatBot sample_package ''bot'' (no_kwargs\<lparr>kw_read_only := Some True\<rparr>)"

text \<open>The sample bot after it was told \<open>Hi\<close> in its default conversation.\<close>

definition greeted_bot :: chatbot where
  "greeted_bot = snd (projr (get_response sample_bot ''Hi'' None))"

text \<open>
  The strategies of the tie scenario: a frequency strategy and a lexical strategy that
  are equally confident of different responses.
\<close>

definition frequency_adapter :: adapter where
  "frequency_adapter s pool = (Other_statement (Statement ''I am good''), 3 / 4)"

definition lexical_adapter :: adapter where
  "lexical_adapter s pool = (Other_statement (Statement ''Fine''), 3 / 4)"

text \<open>A strategy that has no opinion: it echoes the input with confidence 0.\<close>

definition undecided_adapter :: adapter where
  "undecided_adapter s pool = (Same_as_input, 0)"

section \<open>Response links and occurrence counts\<close>

lemma link_count_add_link: "link_count t (add_link t rs) = link_count t rs + 1"
  by (induction rs) auto

lemma link_count_add_link_other: "u \<noteq> t \<Longrightarrow> link_count u (add_link t rs) = link_count u rs"
  by (induction rs) auto

lemma add_response_text [simp]: "statement_text (add_response s r) = statement_text s"
  by (simp add: add_response_def)

lemma find_statement_upsert:
  "find_statement (statement_text s) (upsert s ss) =
     Some (s\<lparr>occurrence :=
              (case find_statement (statement_text s) ss of None \<Rightarrow> 0 | Some x \<Rightarrow> occurrence x) + 1\<rparr>)"
  by (induction ss) auto

lemma find_statement_upsert_text:
  "statement_text s = t \<Longrightarrow>
     find_statement t (upsert s ss) =
       Some (s\<lparr>occurrence :=
                (case find_statement t ss of None \<Rightarrow> 0 | Some x \<Rightarrow> occurrence x) + 1\<rparr>)"
  using find_statement_upsert [of s ss] by simp

lemma find_statement_upsert_other:
  "t \<noteq> statement_text s \<Longrightarrow> find_statement t (upsert s ss) = find_statement t ss"
  by (induction ss) auto

lemma occurrence_of_update:
  "occurrence_of (update st s) (statement_text s) = occurrence_of st (statement_text s) + 1"
  by (simp add: occurrence_of_def update_def find_statement_upsert)

lemma occurrence_of_update_other:
  "t \<noteq> statement_text s \<Longrightarrow> occurrence_of (update st s) t = occurrence_of st t"
  by (simp add: occurrence_of_def update_def find_statement_upsert_other)

lemma occurrence_of_update_mono: "occurrence_of st t \<le> occurrence_of (update st s) t"
  by (cases "t = statement_text s") (simp_all add: occurrence_of_update occurrence_of_update_other)

lemma occurrence_of_statements_add [simp]:
  "occurrence_of (statements_add st c s) t = occurrence_of st t"
  by (simp add: occurrence_of_def statements_add_def)

section \<open>The default conversation\<close>

lemma fold_max_lower: "(m::nat) \<le> fold max xs m"
proof (induction xs arbitrary: m)
  case Nil
  show ?case by simp
next
  case (Cons x xs)
  have "m \<le> max x m" by simp
  also have "\<dots> \<le> fold max xs (max x m)" by (rule Cons.IH)
  finally show ?case by simp
qed

lemma fold_max_upper: "i \<in> set xs \<Longrightarrow> (i::nat) \<le> fold max xs m"
proof (induction xs arbitrary: m)
  case Nil
  then show ?case by simp
next
  case (Cons x xs)
  show ?case
  proof (cases "i = x")
    case True
    have "i \<le> max x m" using True by simp
    also have "\<dots> \<le> fold max xs (max x m)" by (rule fold_max_lower)
    finally show ?thesis by simp
  next
    case False
    then have "i \<in> set xs" using Cons.prems by simp
    then show ?thesis using Cons.IH by simp
  qed
qed

lemma objects_create_fresh: "fst (objects_create st) \<notin> set (conversation_ids st)"
proof
  assume "fst (objects_create st) \<in> set (conversation_ids st)"
  then have "fst (objects_create st) \<le> fold max (conversation_ids st) 0"
    by (rule fold_max_upper)
  then show False by (simp add: objects_create_def Let_def)
qed

lemma default_conversation_read_only [simp]:
  "read_only (snd (get_or_create_default_conversation self)) = read_only self"
  by (simp add: get_or_create_default_conversation_def objects_create_def Let_def split: option.splits)

lemma default_conversation_statements [simp]:
  "stored_statements (storage (snd (get_or_create_default_conversation self))) =
     stored_statements (storage self)"
  by (simp add: get_or_create_default_conversation_def objects_create_def Let_def split: option.splits)

lemma default_conversation_turns [simp]:
  "conversation_turns (storage (snd (get_or_create_default_conversation self))) =
     conversation_turns (storage self)"
  by (simp add: get_or_create_default_conversation_def objects_create_def Let_def split: option.splits)

lemma default_conversation_config [simp]:
  "adapters (snd (get_or_create_default_conversation self)) = adapters self"
  "system_adapters (snd (get_or_create_default_conversation self)) = system_adapters self"
  "base_query (snd (get_or_create_default_conversation self)) = base_query self"
  "input_adapter (snd (get_or_create_default_conversation self)) = input_adapter self"
  "preprocessors (snd (get_or_create_default_conversation self)) = preprocessors self"
  by (simp_all add: get_or_create_default_conversation_def objects_create_def Let_def
      split: option.splits)

lemma default_conversation_cached [simp]:
  "default_conversation (snd (get_or_create_default_conversation self)) =
     Some (fst (get_or_create_default_conversation self))"
  by (simp add: get_or_create_default_conversation_def objects_create_def Let_def split: option.splits)

lemma default_conversation_hit:
  "default_conversation self = Some c \<Longrightarrow> get_or_create_default_conversation self = (c, self)"
  by (simp add: get_or_create_default_conversation_def)

lemma default_conversation_miss:
  "default_conversation self = None \<Longrightarrow>
     get_or_create_default_conversation self =
       (fst (objects_create (storage self)),
        self\<lparr>storage := snd (objects_create (storage self)),
             default_conversation := Some (fst (objects_create (storage self)))\<rparr>)"
  by (simp add: get_or_create_default_conversation_def case_prod_beta)

lemma default_conversation_again:
  "get_or_create_default_conversation (snd (get_or_create_default_conversation self)) =
     get_or_create_default_conversation self"
  using default_conversation_hit [OF default_conversation_cached [of self]] by simp

lemma default_conversation_stable:
  "((\<lambda>b. snd (get_or_create_default_conversation b)) ^^ Suc n) self =
     snd (get_or_create_default_conversation self)"
proof (induction n)
  case 0
  show ?case by simp
next
  case (Suc n)
  let ?g = "\<lambda>b. snd (get_or_create_default_conversation b)"
  have "(?g ^^ Suc (Suc n)) self = ?g ((?g ^^ Suc n) self)" by simp
  also have "\<dots> = ?g (?g self)" by (simp only: Suc)
  also have "\<dots> = ?g self" by (simp add: default_conversation_again)
  finally show ?case .
qed

text \<open>
  Claim C9. \<^verbatim>\<open>get_or_create_default_conversation\<close> creates at most one default conversation
  for a bot. On a bot without a default conversation the call creates one conversation,
  under an id that the store did not have, caches it in \<^verbatim>\<open>default_conversation\<close> and
  changes nothing else. On a bot with a cached conversation the call returns it and
  leaves the bot as it is. So after the first call, whatever the number of further calls,
  the next call returns the conversation of the first call and the bot is still the one
  that the first call left: nothing more is created.
\<close>

theorem default_conversation_created_once:
  "(default_conversation self = None \<longrightarrow>
      fst (get_or_create_default_conversation self) \<notin> set (conversation_ids (storage self)) \<and>
      snd (get_or_create_default_conversation self) =
        self\<lparr>storage := (storage self)\<lparr>conversation_ids :=
                 conversation_ids (storage self) @ [fst (get_or_create_default_conversation self)]\<rparr>,
             default_conversation := Some (fst (get_or_create_default_conversation self))\<rparr>)
   \<and> (\<forall>c. default_conversation self = Some c \<longrightarrow>
          get_or_create_default_conversation self = (c, self))
   \<and> default_conversation (snd (get_or_create_default_conversation self)) =
        Some (fst (get_or_create_default_conversation self))
   \<and> get_or_create_default_conversation
        (((\<lambda>b. snd (get_or_create_default_conversation b)) ^^ Suc n) self) =
        get_or_create_default_conversation self
   \<and> ((\<lambda>b. snd (get_or_create_default_conversation b)) ^^ Suc n) self =
        snd (get_or_create_default_conversation self)"
proof -
  have created: "default_conversation self = None \<Longrightarrow>
      fst (get_or_create_default_conversation self) \<notin> set (conversation_ids (storage self)) \<and>
      snd (get_or_create_default_conversation self) =
        self\<lparr>storage := (storage self)\<lparr>conversation_ids :=
                 conversation_ids (storage self) @ [fst (get_or_create_default_conversation self)]\<rparr>,
             default_conversation := Some (fst (get_or_create_default_conversation self))\<rparr>"
    using objects_create_fresh [of "storage self"]
    by (simp add: default_conversation_miss) (simp add: objects_create_def Let_def)
  have again: "get_or_create_default_conversation
        (((\<lambda>b. snd (get_or_create_default_conversation b)) ^^ Suc n) self) =
        get_or_create_default_conversation self"
    by (simp only: default_conversation_stable default_conversation_again)
  show ?thesis
    using created again default_conversation_stable [of n self]
    by (simp add: default_conversation_hit)
qed

theorem default_conversation_created_once_witness:
  "default_conversation sample_bot = None
   \<and> conversation_ids (storage sample_bot) = []
   \<and> fst (get_or_create_default_conversation sample_bot) = 1
   \<and> conversation_ids (storage (snd (get_or_create_default_conversation sample_bot))) = [1]
   \<and> default_conversation (snd (get_or_create_default_conversation sample_bot)) = Some 1
   \<and> fst (get_or_create_default_conversation
        (((\<lambda>b. snd (get_or_create_default_conversation b)) ^^ Suc 2) sample_bot)) = 1
   \<and> conversation_ids (storage (snd (get_or_create_default_conversation
        (((\<lambda>b. snd (get_or_create_default_conversation b)) ^^ Suc 2) sample_bot)))) = [1]"
  using default_conversation_created_once [of sample_bot 2]
  by (simp add: get_or_create_default_conversation_def objects_create_def sample_bot_def
      ChatBot_def sample_package_def sample_storage_def no_kwargs_def kwargs_get_def)

section \<open>The ensemble selector\<close>

lemma select_keeps:
  "\<forall>r\<in>set rs. snd r \<le> snd b \<Longrightarrow> select (Some b) rs = Some b"
  by (induction rs) auto

lemma select_first_highest:
  assumes "\<forall>x\<in>set pre. snd x < snd r" and "\<forall>x\<in>set post. snd x \<le> snd r"
    and "case best of None \<Rightarrow> True | Some b \<Rightarrow> snd b < snd r"
  shows "select best (pre @ r # post) = Some r"
  using assms
proof (induction pre arbitrary: best)
  case Nil
  then show ?case by (auto simp: select_keeps split: option.splits)
next
  case (Cons x pre)
  then show ?case by (auto split: option.splits)
qed

lemma select_Some: "select (Some b) rs \<noteq> None"
  by (induction rs arbitrary: b) auto

lemma select_nonempty: "rs \<noteq> [] \<Longrightarrow> select best rs \<noteq> None"
  by (cases rs; cases best) (simp_all add: select_Some del: not_None_eq)

lemma process_Some:
  "fallback \<noteq> [] \<Longrightarrow> \<exists>sel. process strategies fallback s pool = Some sel"
proof -
  assume "fallback \<noteq> []"
  then have a: "map (\<lambda>a. a s pool) fallback \<noteq> []"
    and b: "map (\<lambda>a. a s pool) strategies @ map (\<lambda>a. a s pool) fallback \<noteq> []" by simp_all
  from select_nonempty [OF a, of None] select_nonempty [OF b, of None]
  show ?thesis by (auto simp: process_def Let_def simp del: map_append)
qed

text \<open>
  Claim C7, as amended. When two strategies tie on the highest confidence of a round and
  at least one strategy that is not a fallback has a confidence other than 0, the
  selector returns the result of the one that comes first in the configured order
  (fallbacks last): with \<open>i\<close> the earliest strategy whose confidence no other exceeds, and
  a later strategy \<open>k\<close> of exactly that confidence, the response is that of \<open>i\<close>. When
  every strategy that is not a fallback returns confidence 0, the response is that of the
  fallback, whatever the order. The response depends on nothing but the results of the
  strategies in their order, so that equal configurations and inputs give equal responses.
\<close>

theorem process_tie_earliest:
  assumes "i < k" and "k < length (strategies @ fallback)"
    and "snd (((strategies @ fallback) ! k) s pool) = snd (((strategies @ fallback) ! i) s pool)"
    and "\<forall>j<length (strategies @ fallback).
           snd (((strategies @ fallback) ! j) s pool) \<le> snd (((strategies @ fallback) ! i) s pool)"
    and "\<forall>j<i. snd (((strategies @ fallback) ! j) s pool) < snd (((strategies @ fallback) ! i) s pool)"
  shows "(\<not> list_all (\<lambda>a. snd (a s pool) = 0) strategies \<longrightarrow>
           process strategies fallback s pool = Some (fst (((strategies @ fallback) ! i) s pool)))
     \<and> (list_all (\<lambda>a. snd (a s pool) = 0) strategies \<longrightarrow>
           process strategies [f] s pool = Some (fst (f s pool)))
     \<and> (map (\<lambda>a. a s' pool') strategies' = map (\<lambda>a. a s pool) strategies \<and>
         map (\<lambda>a. a s' pool') fallback' = map (\<lambda>a. a s pool) fallback \<longrightarrow>
           process strategies' fallback' s' pool' = process strategies fallback s pool)"
proof -
  define every where "every = strategies @ fallback"
  define rs where "rs = map (\<lambda>a. a s pool) every"
  have i: "i < length every" using assms(1,2) by (simp add: every_def)
  have nth: "rs ! j = (every ! j) s pool" if "j < length every" for j
    using that by (simp add: rs_def)
  have split: "rs = take i rs @ rs ! i # drop (Suc i) rs"
    using i by (intro id_take_nth_drop) (simp add: rs_def)
  have pre: "\<forall>x\<in>set (take i rs). snd x < snd (rs ! i)"
  proof
    fix x assume "x \<in> set (take i rs)"
    then obtain j where j: "j < i" "x = rs ! j"
      using i by (auto simp: in_set_conv_nth rs_def)
    then have "j < length every" using i by simp
    then show "snd x < snd (rs ! i)"
      using assms(5) i j by (simp add: nth every_def)
  qed
  have post: "\<forall>x\<in>set (drop (Suc i) rs). snd x \<le> snd (rs ! i)"
  proof
    fix x assume "x \<in> set (drop (Suc i) rs)"
    then have "x \<in> set rs" by (rule in_set_dropD)
    then obtain j where j: "j < length every" "x = rs ! j"
      by (auto simp: in_set_conv_nth rs_def)
    then show "snd x \<le> snd (rs ! i)"
      using assms(4) i by (simp add: nth every_def)
  qed
  have "select None rs = Some (rs ! i)"
    using select_first_highest [OF pre post, of None] split by simp
  then have "select None (map (\<lambda>a. a s pool) strategies @ map (\<lambda>a. a s pool) fallback) =
      Some (((strategies @ fallback) ! i) s pool)"
    using i by (simp add: nth) (simp add: rs_def every_def)
  then have first: "\<not> list_all (\<lambda>a. snd (a s pool) = 0) strategies \<longrightarrow>
      process strategies fallback s pool = Some (fst (((strategies @ fallback) ! i) s pool))"
    by (simp add: process_def Let_def list_all_iff del: map_option_eq_Some)
  have zero: "list_all (\<lambda>a. snd (a s pool) = 0) strategies \<longrightarrow>
      process strategies [f] s pool = Some (fst (f s pool))"
    by (simp add: process_def Let_def list_all_iff)
  have same: "map (\<lambda>a. a s' pool') strategies' = map (\<lambda>a. a s pool) strategies \<and>
      map (\<lambda>a. a s' pool') fallback' = map (\<lambda>a. a s pool) fallback \<longrightarrow>
      process strategies' fallback' s' pool' = process strategies fallback s pool"
    by (simp add: process_def Let_def)
  from first zero same show ?thesis by blast
qed

theorem process_tie_earliest_witness:
  "process [frequency_adapter, lexical_adapter] [NoKnowledgeAdapter sample_package]
     (Statement ''How are you?'') [] = Some (Other_statement (Statement ''I am good''))
   \<and> process [lexical_adapter, frequency_adapter] [NoKnowledgeAdapter sample_package]
     (Statement ''How are you?'') [] = Some (Other_statement (Statement ''Fine''))"
proof -
  let ?fallback = "[NoKnowledgeAdapter sample_package]"
  let ?s = "Statement ''How are you?''"
  have order: "(0::nat) < 1" by simp
  have a: "process [frequency_adapter, lexical_adapter] ?fallback ?s [] =
      Some (Other_statement (Statement ''I am good''))"
  proof -
    let ?all = "[frequency_adapter, lexical_adapter] @ ?fallback"
    have len: "1 < length ?all" by simp
    have tie: "snd ((?all ! 1) ?s []) = snd ((?all ! 0) ?s [])"
      by (simp add: frequency_adapter_def lexical_adapter_def)
    have highest: "\<forall>j<length ?all. snd ((?all ! j) ?s []) \<le> snd ((?all ! 0) ?s [])"
      by (simp add: frequency_adapter_def lexical_adapter_def sample_package_def
          nth_Cons' All_less_Suc)
    have earliest: "\<forall>j<0::nat. snd ((?all ! j) ?s []) < snd ((?all ! 0) ?s [])"
      by simp
    show ?thesis
      using process_tie_earliest [OF order len tie highest earliest]
      by (simp add: frequency_adapter_def lexical_adapter_def)
  qed
  have b: "process [lexical_adapter, frequency_adapter] ?fallback ?s [] =
      Some (Other_statement (Statement ''Fine''))"
    by (simp add: process_def frequency_adapter_def lexical_adapter_def sample_package_def)
  from a b show ?thesis by simp
qed

text \<open>
  Claim C7 as it was stated fails in a round where every confidence is 0: the undecided
  strategy and the fallback tie exactly, the undecided strategy comes first, and the
  selector returns the response of the fallback.
\<close>

theorem process_zero_tie_fallback:
  "snd (undecided_adapter (Statement ''Hi'') []) =
     snd (NoKnowledgeAdapter sample_package (Statement ''Hi'') [])
   \<and> process [undecided_adapter] [NoKnowledgeAdapter sample_package] (Statement ''Hi'') [] =
       Some (Other_statement (Statement ''I do not understand''))
   \<and> process [undecided_adapter] [NoKnowledgeAdapter sample_package] (Statement ''Hi'') [] \<noteq>
       Some (fst (undecided_adapter (Statement ''Hi'') []))"
  by (simp add: process_def undecided_adapter_def sample_package_def)

section \<open>The learning recorder\<close>

lemma learn_response_text [simp]:
  "statement_text (fst (learn_response self statement previous_statement conversation)) =
     statement_text statement"
  by (simp add: learn_response_def Let_def case_prod_beta split: option.splits)

lemma learn_response_read_only:
  "read_only self \<Longrightarrow>
     learn_response self statement previous_statement (Some c) =
       (case previous_statement of
          None \<Rightarrow> statement
        | Some p \<Rightarrow> add_response statement (Response (statement_text p)), self)"
  by (simp add: learn_response_def)

lemma learn_response_learning:
  "\<not> read_only self \<Longrightarrow>
     learn_response self statement previous_statement (Some c) =
       (let statement1 = (case previous_statement of
                            None \<Rightarrow> statement
                          | Some p \<Rightarrow> add_response statement (Response (statement_text p)))
        in (statement1,
            self\<lparr>storage := statements_add (update (storage self) statement1) c statement1\<rparr>))"
  by (simp add: learn_response_def Let_def)

text \<open>
  Claim C10. \<^verbatim>\<open>learn_response\<close> with a previous statement adds the response link to the
  statement in memory whatever \<^verbatim>\<open>read_only\<close> is, raising the count of that link by one.
  What \<^verbatim>\<open>read_only\<close> guards is the storage update and the append to the conversation:
  they are left out on a read-only bot and done otherwise.
\<close>

theorem add_response_ungated:
  "fst (learn_response self statement (Some p) conversation) =
     add_response statement (Response (statement_text p))
   \<and> link_count (statement_text p)
        (in_response_to (fst (learn_response self statement (Some p) conversation))) =
      link_count (statement_text p) (in_response_to statement) + 1
   \<and> (read_only self \<longrightarrow>
        stored_statements (storage (snd (learn_response self statement (Some p) conversation))) =
          stored_statements (storage self) \<and>
        conversation_turns (storage (snd (learn_response self statement (Some p) conversation))) =
          conversation_turns (storage self))
   \<and> (\<not> read_only self \<longrightarrow>
        stored_statements (storage (snd (learn_response self statement (Some p) conversation))) =
          upsert (add_response statement (Response (statement_text p)))
            (stored_statements (storage self)) \<and>
        (\<exists>c. conversation_turns
               (storage (snd (learn_response self statement (Some p) conversation))) =
             conversation_turns (storage self) @
               [(c, add_response statement (Response (statement_text p)))]))"
  by (cases conversation)
    (simp_all add: learn_response_def Let_def case_prod_beta add_response_def Response_def
      link_count_add_link update_def statements_add_def)

theorem add_response_ungated_witness:
  "read_only frozen_bot
   \<and> in_response_to (fst (learn_response frozen_bot (Statement ''How are you?'')
        (Some (Statement ''Hi'')) None)) = [\<lparr>response_text = ''Hi'', response_occurrence = 1\<rparr>]
   \<and> stored_statements (storage (snd (learn_response frozen_bot (Statement ''How are you?'')
        (Some (Statement ''Hi'')) None))) = []
   \<and> \<not> read_only sample_bot
   \<and> stored_statements (storage (snd (learn_response sample_bot (Statement ''How are you?'')
        (Some (Statement ''Hi'')) None))) =
       [\<lparr>statement_text = ''How are you?'', occurrence = 1,
         in_response_to = [\<lparr>response_text = ''Hi'', response_occurrence = 1\<rparr>]\<rparr>]"
  using add_response_ungated [of frozen_bot "Statement ''How are you?''" "Statement ''Hi''" None]
    add_response_ungated [of sample_bot "Statement ''How are you?''" "Statement ''Hi''" None]
  by (simp add: frozen_bot_def sample_bot_def ChatBot_def sample_package_def sample_storage_def
      no_kwargs_def kwargs_get_def Statement_def add_response_def Response_def)

text \<open>
  Claim C5. On a bot that is not read-only, \<^verbatim>\<open>learn_response\<close> leaves the statement in
  the store under its text, whether a previous statement is given or not, with the
  occurrence count that the store held for the text (0 for an unknown text) raised by
  one. With a previous statement, the stored statement carries the response link from it,
  created with count 1 or with the count that the statement carried raised by one, and
  every other link as the statement carried it; without one, the stored statement
  carries the links of the statement as they were.
\<close>

theorem learn_response_persists:
  assumes "\<not> read_only self"
  shows "\<exists>s'. find_statement (statement_text statement)
           (stored_statements
              (storage (snd (learn_response self statement previous_statement conversation)))) =
           Some s'
     \<and> occurrence s' = occurrence_of (storage self) (statement_text statement) + 1
     \<and> occurrence_of (storage (snd (learn_response self statement previous_statement conversation)))
          (statement_text statement) = occurrence_of (storage self) (statement_text statement) + 1
     \<and> (\<forall>p. previous_statement = Some p \<longrightarrow>
          link_count (statement_text p) (in_response_to s') =
            link_count (statement_text p) (in_response_to statement) + 1 \<and>
          (\<forall>t. t \<noteq> statement_text p \<longrightarrow>
             link_count t (in_response_to s') = link_count t (in_response_to statement)))
     \<and> (previous_statement = None \<longrightarrow> in_response_to s' = in_response_to statement)"
  using assms
  by (cases conversation; cases previous_statement)
    (simp_all add: learn_response_def Let_def case_prod_beta update_def statements_add_def
      find_statement_upsert_text occurrence_of_def add_response_def link_count_add_link
      link_count_add_link_other Response_def)

theorem learn_response_persists_witness:
  "\<not> read_only sample_bot
   \<and> stored_statements (storage (snd (learn_response sample_bot (Statement ''I am good'')
        (Some (Statement ''How are you?'')) None))) =
       [\<lparr>statement_text = ''I am good'', occurrence = 1,
         in_response_to = [\<lparr>response_text = ''How are you?'', response_occurrence = 1\<rparr>]\<rparr>]
   \<and> stored_statements (storage (snd (learn_response sample_bot (Statement ''I am good'')
        None None))) =
       [\<lparr>statement_text = ''I am good'', occurrence = 1, in_response_to = []\<rparr>]"
  using learn_response_persists [of sample_bot "Statement ''I am good''"
      "Some (Statement ''How are you?'')" None]
    learn_response_persists [of sample_bot "Statement ''I am good''" None None]
  by (simp add: learn_response_def get_or_create_default_conversation_def objects_create_def
      Let_def update_def statements_add_def add_response_def Response_def
      sample_bot_def ChatBot_def sample_package_def sample_storage_def
      no_kwargs_def kwargs_get_def Statement_def)

section \<open>The facade\<close>

lemma get_conversation_cases:
  "get_conversation self cid = get_or_create_default_conversation self \<or>
   (\<exists>i. cid = Some i \<and> i \<noteq> 0 \<and> i \<in> set (conversation_ids (storage self)) \<and>
        get_conversation self cid = (i, self))"
  by (auto simp: get_conversation_def conversations_get_def split: option.splits)


lemma get_conversation_frame [simp]:
  "read_only (snd (get_conversation self cid)) = read_only self"
  "stored_statements (storage (snd (get_conversation self cid))) = stored_statements (storage self)"
  "conversation_turns (storage (snd (get_conversation self cid))) = conversation_turns (storage self)"
  "adapters (snd (get_conversation self cid)) = adapters self"
  "system_adapters (snd (get_conversation self cid)) = system_adapters self"
  "base_query (snd (get_conversation self cid)) = base_query self"
  "input_adapter (snd (get_conversation self cid)) = input_adapter self"
  "preprocessors (snd (get_conversation self cid)) = preprocessors self"
  using get_conversation_cases [of self cid] by auto

lemma get_conversation_bot:
  "snd (get_conversation self cid) = self \<or>
   snd (get_conversation self cid) = snd (get_or_create_default_conversation self)"
  using get_conversation_cases [of self cid] by auto

lemma get_conversation_again:
  "snd (get_conversation (snd (get_or_create_default_conversation self)) cid) =
     snd (get_or_create_default_conversation self)"
  using get_conversation_bot [of "snd (get_or_create_default_conversation self)" cid]
  by (auto simp: default_conversation_again)

lemma statements_frame:
  "conversation_turns st' = conversation_turns st \<Longrightarrow> statements st' c = statements st c"
  "conversation_turns st' = conversation_turns st \<Longrightarrow>
     get_last_response_statement st' c = get_last_response_statement st c"
  by (simp_all add: statements_def get_last_response_statement_def)

lemma get_response_read_only:
  assumes "read_only self"
  shows "get_response self item cid =
       (let conv = fst (get_conversation self cid);
            self1 = snd (get_conversation self cid);
            statement1 = (case get_last_response_statement (storage self) conv of
                            None \<Rightarrow> preprocess self item
                          | Some p \<Rightarrow> add_response (preprocess self item) (Response (statement_text p)))
        in Inr (map_option (\<lambda>sel. the_statement sel statement1)
                  (process (adapters self) (system_adapters self) (preprocess self item)
                     (base_query self (storage self1) conv)),
                self1))"
proof -
  have last: "get_last_response_statement (storage (snd (get_conversation self cid))) c =
      get_last_response_statement (storage self) c" for c
    by (rule statements_frame) simp
  have "read_only (snd (get_conversation self cid))" using assms by simp
  from learn_response_read_only [OF this] assms show ?thesis
    by (simp add: get_response_def Let_def case_prod_beta generate_response_def
        process_response_def last)
qed

lemma get_response_learning:
  assumes "\<not> read_only self"
  shows "get_response self item cid =
       (let conv = fst (get_conversation self cid);
            self1 = snd (get_conversation self cid);
            statement1 = (case get_last_response_statement (storage self) conv of
                            None \<Rightarrow> preprocess self item
                          | Some p \<Rightarrow> add_response (preprocess self item) (Response (statement_text p)))
        in case process (adapters self) (system_adapters self) (preprocess self item)
                  (base_query self (storage self1) conv) of
             None \<Rightarrow> Inl AttributeError
           | Some sel \<Rightarrow>
               Inr (Some (the_statement sel statement1),
                    self1\<lparr>storage :=
                      statements_add
                        (save (statements_add (update (storage self1) statement1) conv statement1)
                           (the_statement sel statement1))
                        conv (the_statement sel statement1)\<rparr>))"
proof -
  have last: "get_last_response_statement (storage (snd (get_conversation self cid))) c =
      get_last_response_statement (storage self) c" for c
    by (rule statements_frame) simp
  have "\<not> read_only (snd (get_conversation self cid))" using assms by simp
  from learn_response_learning [OF this] assms show ?thesis
    by (simp add: get_response_def Let_def case_prod_beta generate_response_def
        process_response_def last split: option.splits)
qed

lemma get_response_returns:
  assumes "system_adapters self \<noteq> []"
  shows "\<exists>r self'. get_response self item cid = Inr (Some r, self')"
proof -
  obtain sel where "process (adapters self) (system_adapters self) (preprocess self item)
      (base_query self (storage (snd (get_conversation self cid))) (fst (get_conversation self cid))) =
      Some sel"
    using process_Some [OF assms] by blast
  then show ?thesis
    by (cases "read_only self") (simp_all add: get_response_read_only get_response_learning Let_def)
qed

lemma get_response_config:
  assumes "get_response self item cid = Inr (r, self')"
  shows "read_only self' = read_only self" and "system_adapters self' = system_adapters self"
    and "adapters self' = adapters self"
  using assms
  by (cases "read_only self";
      auto simp: get_response_read_only get_response_learning Let_def split: option.splits)+

lemma get_responses_returns:
  "system_adapters self \<noteq> [] \<Longrightarrow>
     \<exists>b. get_responses self calls = Inr b \<and> system_adapters b = system_adapters self \<and>
         read_only b = read_only self"
proof (induction calls arbitrary: self)
  case Nil
  then show ?case by simp
next
  case (Cons call calls)
  obtain r self' where step: "get_response self (fst call) (snd call) = Inr (Some r, self')"
    using get_response_returns [OF Cons.prems] by blast
  have keep: "system_adapters self' = system_adapters self" "read_only self' = read_only self"
    using get_response_config [OF step] by simp_all
  then have "system_adapters self' \<noteq> []" using Cons.prems by simp
  from Cons.IH [OF this] keep step show ?case by auto
qed

lemma get_response_read_only_bot:
  "read_only self \<Longrightarrow>
     \<exists>r. get_response self item cid = Inr (r, snd (get_conversation self cid))"
  by (simp add: get_response_read_only Let_def)

lemma get_responses_read_only:
  "read_only self \<Longrightarrow>
     get_responses self calls = Inr self \<or>
     get_responses self calls = Inr (snd (get_or_create_default_conversation self))"
proof (induction calls arbitrary: self)
  case Nil
  then show ?case by simp
next
  case (Cons call calls)
  obtain r where step: "get_response self (fst call) (snd call) = Inr (r, snd (get_conversation self (snd call)))"
    using get_response_read_only_bot [OF Cons.prems] by blast
  let ?next = "snd (get_conversation self (snd call))"
  have ro: "read_only ?next" using Cons.prems by simp
  have rest: "get_responses self (call # calls) = get_responses ?next calls"
    using step by simp
  from get_conversation_bot [of self "snd call"] show ?case
  proof
    assume "?next = self"
    then show ?thesis using Cons.IH [OF Cons.prems] rest by simp
  next
    assume created: "?next = snd (get_or_create_default_conversation self)"
    have "get_responses ?next calls = Inr ?next \<or>
        get_responses ?next calls = Inr (snd (get_or_create_default_conversation ?next))"
      using Cons.IH [OF ro] .
    then show ?thesis
      using rest created by (auto simp: default_conversation_again)
  qed
qed

text \<open>
  Claim C1, as amended. On a read-only bot, \<^verbatim>\<open>get_response\<close> calls and
  \<^verbatim>\<open>learn_response\<close> never change the stored statements (occurrence counts and response
  links) nor the statements of any conversation. All they can change is to create the
  default conversation, empty, when the bot has none yet: after any sequence of
  \<^verbatim>\<open>get_response\<close> calls the bot is either as it was or as
  \<^verbatim>\<open>get_or_create_default_conversation\<close> alone would have left it. Once the default
  conversation exists, the calls leave the bot and its whole store as they were. A
  read-only bot raises no exception in these calls.
\<close>

theorem read_only_freezes_corpus:
  assumes "read_only self"
  shows "(get_responses self calls = Inr self \<or>
          get_responses self calls = Inr (snd (get_or_create_default_conversation self)))
     \<and> (default_conversation self \<noteq> None \<longrightarrow> get_responses self calls = Inr self)
     \<and> (snd (learn_response self statement previous_statement conversation) = self \<or>
         snd (learn_response self statement previous_statement conversation) =
           snd (get_or_create_default_conversation self))
     \<and> (default_conversation self \<noteq> None \<or> conversation \<noteq> None \<longrightarrow>
          snd (learn_response self statement previous_statement conversation) = self)
     \<and> stored_statements (storage (snd (get_or_create_default_conversation self))) =
          stored_statements (storage self)
     \<and> conversation_turns (storage (snd (get_or_create_default_conversation self))) =
          conversation_turns (storage self)
     \<and> conversation_ids (storage (snd (get_or_create_default_conversation self))) =
          (if default_conversation self = None
           then conversation_ids (storage self) @ [fst (get_or_create_default_conversation self)]
           else conversation_ids (storage self))"
proof -
  have calls: "get_responses self calls = Inr self \<or>
      get_responses self calls = Inr (snd (get_or_create_default_conversation self))"
    using assms by (rule get_responses_read_only)
  have cached: "default_conversation self \<noteq> None \<longrightarrow> get_responses self calls = Inr self"
    using calls by (auto simp: default_conversation_hit)
  have learn: "snd (learn_response self statement previous_statement conversation) = self \<or>
      snd (learn_response self statement previous_statement conversation) =
        snd (get_or_create_default_conversation self)"
    using assms by (cases conversation) (simp_all add: learn_response_def Let_def case_prod_beta)
  have learn_cached: "default_conversation self \<noteq> None \<or> conversation \<noteq> None \<longrightarrow>
      snd (learn_response self statement previous_statement conversation) = self"
    using assms
    by (cases conversation)
      (auto simp: learn_response_def Let_def case_prod_beta default_conversation_hit)
  have ids: "conversation_ids (storage (snd (get_or_create_default_conversation self))) =
      (if default_conversation self = None
       then conversation_ids (storage self) @ [fst (get_or_create_default_conversation self)]
       else conversation_ids (storage self))"
    by (auto simp: get_or_create_default_conversation_def objects_create_def Let_def)
  from calls cached learn learn_cached ids show ?thesis by simp
qed

theorem read_only_freezes_corpus_witness:
  "read_only frozen_bot
   \<and> \<not> isl (get_responses frozen_bot [(''Hi'', None), (''How are you?'', Some 7)])
   \<and> stored_statements (storage (projr (get_responses frozen_bot
        [(''Hi'', None), (''How are you?'', Some 7)]))) = stored_statements (storage frozen_bot)
   \<and> conversation_turns (storage (projr (get_responses frozen_bot
        [(''Hi'', None), (''How are you?'', Some 7)]))) = conversation_turns (storage frozen_bot)
   \<and> conversation_ids (storage (projr (get_responses frozen_bot
        [(''Hi'', None), (''How are you?'', Some 7)]))) = [1]"
proof -
  have ro: "read_only frozen_bot"
    by (simp add: frozen_bot_def ChatBot_def no_kwargs_def kwargs_get_def)
  have ids: "conversation_ids (storage (snd (get_or_create_default_conversation frozen_bot))) = [1]"
    and none: "conversation_ids (storage frozen_bot) \<noteq> [1]"
    by (simp_all add: get_or_create_default_conversation_def objects_create_def frozen_bot_def
        ChatBot_def sample_package_def sample_storage_def no_kwargs_def kwargs_get_def)
  have run: "conversation_ids (storage (projr (get_responses frozen_bot
        [(''Hi'', None), (''How are you?'', Some 7)]))) = [1]"
    by code_simp
  have "get_responses frozen_bot [(''Hi'', None), (''How are you?'', Some 7)] = Inr frozen_bot \<or>
      get_responses frozen_bot [(''Hi'', None), (''How are you?'', Some 7)] =
        Inr (snd (get_or_create_default_conversation frozen_bot))"
    using read_only_freezes_corpus [OF ro, of "[(''Hi'', None), (''How are you?'', Some 7)]"]
    by (rule conjunct1)
  then have "get_responses frozen_bot [(''Hi'', None), (''How are you?'', Some 7)] =
      Inr (snd (get_or_create_default_conversation frozen_bot))"
    using run none by (auto simp del: get_responses.simps)
  then show ?thesis using ro ids by (simp del: get_responses.simps)
qed

text \<open>
  Claim C1 as it was stated fails on a read-only bot that has no default conversation
  yet: the first \<^verbatim>\<open>get_response\<close> call creates a conversation in the store.
\<close>

theorem read_only_creates_conversation:
  "read_only frozen_bot
   \<and> conversation_ids (storage frozen_bot) = []
   \<and> \<not> isl (get_response frozen_bot ''Hi'' None)
   \<and> conversation_ids (storage (snd (projr (get_response frozen_bot ''Hi'' None)))) = [1]"
  by code_simp

text \<open>
  Claim C3, as amended. On a read-only bot \<^verbatim>\<open>get_response\<close> appends nothing to any
  conversation: neither the input statement nor the response. On a bot that is not
  read-only it appends to the conversation of the call first the input statement, as
  \<^verbatim>\<open>learn_response\<close> left it, and then the response, and appends nothing else.
\<close>

theorem read_only_appends_nothing:
  assumes "get_response self item cid = Inr (r, self')"
  shows "(read_only self \<longrightarrow> conversation_turns (storage self') = conversation_turns (storage self))
     \<and> (\<not> read_only self \<longrightarrow>
          (\<exists>resp. r = Some resp
             \<and> conversation_turns (storage self') =
                 conversation_turns (storage self) @
                   [(fst (get_conversation self cid),
                     fst (learn_response (snd (get_conversation self cid)) (preprocess self item)
                            (get_last_response_statement (storage self)
                               (fst (get_conversation self cid)))
                            (Some (fst (get_conversation self cid))))),
                    (fst (get_conversation self cid), resp)]))"
proof (cases "read_only self")
  case True
  then show ?thesis
    using assms by (auto simp: get_response_read_only Let_def)
next
  case False
  then have "\<not> read_only (snd (get_conversation self cid))" by simp
  from learn_response_learning [OF this] False assms show ?thesis
    by (auto simp: get_response_learning Let_def statements_add_def save_def update_def
        split: option.splits)
qed

theorem read_only_appends_nothing_witness:
  "read_only frozen_bot
   \<and> \<not> isl (get_response frozen_bot ''Hi'' None)
   \<and> conversation_turns (storage (snd (projr (get_response frozen_bot ''Hi'' None)))) = []
   \<and> \<not> read_only sample_bot
   \<and> \<not> isl (get_response sample_bot ''Hi'' None)
   \<and> conversation_turns (storage (snd (projr (get_response sample_bot ''Hi'' None)))) =
       [(1, Statement ''Hi''), (1, Statement ''I do not understand'')]"
proof -
  have frozen_returns: "\<not> isl (get_response frozen_bot ''Hi'' None)"
    by code_simp
  then have frozen: "get_response frozen_bot ''Hi'' None =
      Inr (fst (projr (get_response frozen_bot ''Hi'' None)),
           snd (projr (get_response frozen_bot ''Hi'' None)))"
    by (cases "get_response frozen_bot ''Hi'' None") simp_all
  have learning_returns: "\<not> isl (get_response sample_bot ''Hi'' None)"
    by code_simp
  then have learning: "get_response sample_bot ''Hi'' None =
      Inr (fst (projr (get_response sample_bot ''Hi'' None)),
           snd (projr (get_response sample_bot ''Hi'' None)))"
    by (cases "get_response sample_bot ''Hi'' None") simp_all
  have ro: "read_only frozen_bot" "\<not> read_only sample_bot"
    "conversation_turns (storage frozen_bot) = []" "conversation_turns (storage sample_bot) = []"
    by (simp_all add: frozen_bot_def sample_bot_def ChatBot_def no_kwargs_def kwargs_get_def
        sample_package_def sample_storage_def)
  have turns: "conversation_turns (storage (snd (projr (get_response sample_bot ''Hi'' None)))) =
       [(1, Statement ''Hi''), (1, Statement ''I do not understand'')]"
    by code_simp
  show ?thesis
    using read_only_appends_nothing [OF frozen] read_only_appends_nothing [OF learning] ro turns
      frozen_returns learning_returns
    by simp
qed

text \<open>
  Claim C3 as it was stated fails on a read-only bot: the call returns a response, and
  the conversation holds neither the input statement nor the response afterwards.
\<close>

theorem read_only_conversation_stays_empty:
  "read_only frozen_bot
   \<and> fst (get_conversation frozen_bot None) = 1
   \<and> \<not> isl (get_response frozen_bot ''Hi'' None)
   \<and> fst (projr (get_response frozen_bot ''Hi'' None)) = Some (Statement ''I do not understand'')
   \<and> statements (storage (snd (projr (get_response frozen_bot ''Hi'' None)))) 1 = []
   \<and> conversation_turns (storage (snd (projr (get_response frozen_bot ''Hi'' None)))) = []"
  by code_simp






lemma occurrence_of_stored:
  "stored_statements st' = stored_statements st \<Longrightarrow> occurrence_of st' t = occurrence_of st t"
  by (simp add: occurrence_of_def)

lemma get_response_writes:
  assumes "\<not> read_only self" and "get_response self item cid = Inr (r, self')"
  shows "\<exists>resp. r = Some resp
     \<and> occurrence_of (storage self) (statement_text (preprocess self item)) <
         occurrence_of (storage self') (statement_text (preprocess self item))
     \<and> occurrence_of (storage self) (statement_text resp) <
         occurrence_of (storage self') (statement_text resp)
     \<and> length (conversation_turns (storage self')) = length (conversation_turns (storage self)) + 2"
proof -
  define conv where "conv = fst (get_conversation self cid)"
  define st1 where "st1 = storage (snd (get_conversation self cid))"
  define s1 where "s1 = (case get_last_response_statement (storage self) conv of
      None \<Rightarrow> preprocess self item
    | Some p \<Rightarrow> add_response (preprocess self item) (Response (statement_text p)))"
  have text1: "statement_text s1 = statement_text (preprocess self item)"
    by (simp add: s1_def split: option.splits)
  obtain resp where r: "r = Some resp"
    and store: "storage self' =
      statements_add (save (statements_add (update st1 s1) conv s1) resp) conv resp"
    using assms
    by (auto simp: get_response_learning Let_def conv_def st1_def s1_def split: option.splits)
  have before: "occurrence_of st1 t = occurrence_of (storage self) t" for t
    unfolding st1_def by (rule occurrence_of_stored) simp
  have after: "occurrence_of (storage self') t =
      occurrence_of (update (statements_add (update st1 s1) conv s1) resp) t" for t
    by (simp add: store save_def)
  have learned: "occurrence_of (update st1 s1) (statement_text s1) =
      occurrence_of (storage self) (statement_text s1) + 1"
    by (simp add: occurrence_of_update before)
  have "occurrence_of (storage self) (statement_text s1) <
      occurrence_of (statements_add (update st1 s1) conv s1) (statement_text s1)"
    using learned by simp
  also have "\<dots> \<le> occurrence_of (storage self') (statement_text s1)"
    unfolding after by (rule occurrence_of_update_mono)
  finally have input: "occurrence_of (storage self) (statement_text (preprocess self item)) <
      occurrence_of (storage self') (statement_text (preprocess self item))"
    by (simp add: text1)
  have "occurrence_of (storage self) (statement_text resp) \<le>
      occurrence_of (statements_add (update st1 s1) conv s1) (statement_text resp)"
    using occurrence_of_update_mono [of st1 "statement_text resp" s1] by (simp add: before)
  also have "\<dots> < occurrence_of (storage self') (statement_text resp)"
    unfolding after by (simp add: occurrence_of_update)
  finally have response: "occurrence_of (storage self) (statement_text resp) <
      occurrence_of (storage self') (statement_text resp)" .
  have "length (conversation_turns (storage self')) = length (conversation_turns (storage self)) + 2"
    by (simp add: store save_def update_def statements_add_def st1_def)
  with r input response show ?thesis by simp
qed

text \<open>
  Claim C4. The constructor puts the no-knowledge adapter among the system adapters
  whatever its arguments are, and the engine never removes it. So on a bot as constructed,
  after any sequence of \<^verbatim>\<open>get_response\<close> calls (each of which returns), the next
  \<^verbatim>\<open>get_response\<close> call returns too, for every input and conversation id, and what it
  returns is a response, not an absent value. The store and the configured adapters are
  arbitrary: the store may be empty, and no adapter may be configured.
\<close>

theorem get_response_never_absent:
  "system_adapters (ChatBot pkg nm kw) = [NoKnowledgeAdapter pkg]
   \<and> (\<exists>b. get_responses (ChatBot pkg nm kw) calls = Inr b
        \<and> system_adapters b = [NoKnowledgeAdapter pkg]
        \<and> (\<exists>r b'. get_response b item cid = Inr (Some r, b')))"
proof -
  have fallback: "system_adapters (ChatBot pkg nm kw) = [NoKnowledgeAdapter pkg]"
    by (simp add: ChatBot_def)
  then have "system_adapters (ChatBot pkg nm kw) \<noteq> []" by simp
  from get_responses_returns [OF this, of calls]
  obtain b where b: "get_responses (ChatBot pkg nm kw) calls = Inr b"
    "system_adapters b = [NoKnowledgeAdapter pkg]"
    using fallback by auto
  then have "system_adapters b \<noteq> []" by simp
  from get_response_returns [OF this, of item cid] b fallback show ?thesis by blast
qed

theorem get_response_never_absent_witness:
  "storage sample_bot = sample_storage
   \<and> get_response sample_bot ''Hi'' None =
       Inr (Some (Statement ''I do not understand''), snd (projr (get_response sample_bot ''Hi'' None)))
   \<and> fst (projr (get_response greeted_bot ''How are you?'' (Some 7))) =
       Some \<lparr>statement_text = ''Hi'', occurrence = 1, in_response_to = []\<rparr>"
proof -
  have empty: "storage sample_bot = sample_storage"
    by (simp add: sample_bot_def ChatBot_def no_kwargs_def kwargs_get_def sample_package_def)
  have first: "fst (projr (get_response sample_bot ''Hi'' None)) =
      Some (Statement ''I do not understand'')"
    and second: "fst (projr (get_response greeted_bot ''How are you?'' (Some 7))) =
      Some \<lparr>statement_text = ''Hi'', occurrence = 1, in_response_to = []\<rparr>"
    by code_simp+
  from get_response_never_absent [of sample_package "''bot''" no_kwargs "[]" "''Hi''" None]
  obtain r b' where "get_response sample_bot ''Hi'' None = Inr (Some r, b')"
    by (auto simp: sample_bot_def)
  then show ?thesis using empty first second by simp
qed

text \<open>
  Claim C8. A bot constructed without the \<^verbatim>\<open>read_only\<close> argument has \<^verbatim>\<open>read_only\<close> equal to
  \<open>False\<close>, and it stays so through \<^verbatim>\<open>get_response\<close> calls. After any sequence of such
  calls the next \<^verbatim>\<open>get_response\<close> call returns a response and does the learning writes:
  the store's occurrence count of the input statement's text and that of the response's
  text are higher than before, and two statements are appended to the conversation.
\<close>

theorem default_read_only_False:
  assumes "kw_read_only kw = None"
  shows "read_only (ChatBot pkg nm kw) = False
     \<and> (\<exists>b. get_responses (ChatBot pkg nm kw) calls = Inr b
          \<and> \<not> read_only b
          \<and> (\<exists>resp b'. get_response b item cid = Inr (Some resp, b')
                \<and> occurrence_of (storage b) (statement_text (preprocess b item)) <
                    occurrence_of (storage b') (statement_text (preprocess b item))
                \<and> occurrence_of (storage b) (statement_text resp) <
                    occurrence_of (storage b') (statement_text resp)
                \<and> length (conversation_turns (storage b')) =
                    length (conversation_turns (storage b)) + 2))"
proof -
  have learning: "read_only (ChatBot pkg nm kw) = False"
    using assms by (simp add: ChatBot_def kwargs_get_def)
  have "system_adapters (ChatBot pkg nm kw) \<noteq> []"
    by (simp add: ChatBot_def)
  from get_responses_returns [OF this, of calls]
  obtain b where b: "get_responses (ChatBot pkg nm kw) calls = Inr b"
    "system_adapters b \<noteq> []" "\<not> read_only b"
    using learning by (auto simp: ChatBot_def)
  obtain resp b' where call: "get_response b item cid = Inr (Some resp, b')"
    using get_response_returns [OF b(2)] by blast
  from get_response_writes [OF b(3) call] learning b call show ?thesis by auto
qed

theorem default_read_only_False_witness:
  "kw_read_only no_kwargs = None
   \<and> read_only sample_bot = False
   \<and> occurrence_of (storage sample_bot) ''Hi'' = 0
   \<and> occurrence_of (storage (snd (projr (get_response sample_bot ''Hi'' None)))) ''Hi'' = 1
   \<and> length (conversation_turns (storage (snd (projr (get_response sample_bot ''Hi'' None))))) = 2"
proof -
  have none: "kw_read_only no_kwargs = None"
    by (simp add: no_kwargs_def)
  have run: "occurrence_of (storage sample_bot) ''Hi'' = 0"
    "occurrence_of (storage (snd (projr (get_response sample_bot ''Hi'' None)))) ''Hi'' = 1"
    "length (conversation_turns (storage (snd (projr (get_response sample_bot ''Hi'' None))))) = 2"
    by code_simp+
  from default_read_only_False [OF none, of sample_package "''bot''" "[]" "''Hi''" None]
  have "read_only sample_bot = False"
    by (simp add: sample_bot_def)
  then show ?thesis using none run by simp
qed

end
